theory Spec2Isabelle
  imports Complex_Main "HOL-Library.Char_ord" "HOL-Library.List_Lexorder"
    "HOL-Library.State_Monad"
begin

section \<open>Super Simple Stock Market: the model of sssm.py\<close>

text \<open>
  Numbers. Python's \<open>int\<close> is \<^typ>\<open>int\<close>. A value annotated \<open>Union[int, float]\<close>
  (a price, a fixed dividend) and every result of the true division \<open>/\<close> is a
  \<^typ>\<open>real\<close>: the arithmetic is exact, the rounding of IEEE doubles is not modelled.
  An instant of time (\<open>datetime\<close>) is a \<^typ>\<open>real\<close> number of seconds, and
  \<open>timedelta(seconds=d)\<close> is the number \<open>d\<close>.

  Exceptions are values: a function that can raise returns \<open>error + 'a\<close>.
\<close>

datatype error = NotImplementedError | ZeroDivisionError | TypeError

text \<open>\<open>a / b\<close> on numbers: raises \<open>ZeroDivisionError\<close> when \<open>b\<close> is zero.\<close>

definition truediv :: "real \<Rightarrow> real \<Rightarrow> error + real" where
  "truediv a b = (if b = 0 then Inl ZeroDivisionError else Inr (a / b))"

subsection \<open>Symbols and \<open>str.upper\<close>\<close>

text \<open>
  A symbol is a string of bytes. \<open>str.upper\<close> is modelled on ASCII: the letters
  \<open>a\<close> to \<open>z\<close> go to \<open>A\<close> to \<open>Z\<close>, every other byte stays. A lower-case letter
  has the bit of value 32 set, and its upper-case letter is 32 below it: the bit is cleared.
\<close>

fun char_upper :: "char \<Rightarrow> char" where
  "char_upper (Char b0 b1 b2 b3 b4 b5 b6 b7) =
     (if CHR ''a'' \<le> Char b0 b1 b2 b3 b4 b5 b6 b7 \<and> Char b0 b1 b2 b3 b4 b5 b6 b7 \<le> CHR ''z''
      then Char b0 b1 b2 b3 b4 False b6 b7
      else Char b0 b1 b2 b3 b4 b5 b6 b7)"

definition upper :: "string \<Rightarrow> string" where
  "upper s = map char_upper s"

subsection \<open>Stock, CommonStock, PreferredStock\<close>

text \<open>
  The three classes share \<open>Stock.__init__\<close> and \<open>Stock.pe_ratio\<close>; they differ in
  \<open>dividend_yield\<close> only. The class of an object is the field \<open>kind\<close>.
\<close>

datatype stock_class = Stock | CommonStock | PreferredStock

record stock =
  kind :: stock_class
  symbol :: string
  last_dividend :: int
  par_value :: int
  fixed_dividend :: "real option"

definition Stock_init ::
  "stock_class \<Rightarrow> string \<Rightarrow> int \<Rightarrow> int \<Rightarrow> real option \<Rightarrow> stock" where
  "Stock_init cls name ld pv fd =
     \<lparr>kind = cls, symbol = upper name, last_dividend = ld, par_value = pv,
      fixed_dividend = fd\<rparr>"

fun dividend_yield :: "stock \<Rightarrow> real \<Rightarrow> error + real" where
  "dividend_yield s price =
     (case kind s of
        Stock \<Rightarrow> Inl NotImplementedError
      | CommonStock \<Rightarrow> truediv (real_of_int (last_dividend s)) price
      | PreferredStock \<Rightarrow>
          (case fixed_dividend s of
             Some f \<Rightarrow> truediv (f * real_of_int (par_value s)) price
           | None \<Rightarrow> Inr 0))"

definition pe_ratio :: "stock \<Rightarrow> real \<Rightarrow> error + real" where
  "pe_ratio s price =
     (case dividend_yield s price of
        Inl e \<Rightarrow> Inl e
      | Inr y \<Rightarrow> truediv 1 y)"

subsection \<open>TradeType and Trade\<close>

datatype TradeType = buy | sell

fun TradeType_value :: "TradeType \<Rightarrow> int" where
  "TradeType_value buy = 1"
| "TradeType_value sell = - 1"

record trade =
  stock :: stock
  quantity :: int
  action :: TradeType
  price :: real
  timestamp :: real

text \<open>
  \<open>Trade.__init__\<close> reads the clock once (\<open>datetime.utcnow()\<close>); the reading is the
  last argument.
\<close>

definition Trade_init :: "stock \<Rightarrow> int \<Rightarrow> TradeType \<Rightarrow> real \<Rightarrow> real \<Rightarrow> trade" where
  "Trade_init s q a p now =
     \<lparr>stock = s, quantity = q, action = a, price = p, timestamp = now\<rparr>"

definition volume_weighted_price :: "trade list \<Rightarrow> error + real" where
  "volume_weighted_price ts =
     truediv (sum_list (map (\<lambda>t. price t * real_of_int (quantity t)) ts))
             (real_of_int (sum_list (map quantity ts)))"

subsection \<open>Exchange\<close>

record exchange =
  trades :: "trade list"

definition Exchange_init :: exchange where
  "Exchange_init = \<lparr>trades = []\<rparr>"

definition record_trade :: "exchange \<Rightarrow> trade \<Rightarrow> exchange" where
  "record_trade ex t = ex\<lparr>trades := trades ex @ [t]\<rparr>"

text \<open>
  The queries read the clock while they filter the ledger. One query is taken to see
  one instant, the argument \<open>now\<close>.
\<close>

definition price_by_stock :: "real \<Rightarrow> exchange \<Rightarrow> string \<Rightarrow> int \<Rightarrow> error + real option" where
  "price_by_stock now ex name duration =
     (let ts = [t \<leftarrow> trades ex.
                  symbol (stock t) = upper name \<and>
                  timestamp t \<ge> now - real_of_int duration]
      in if ts \<noteq> [] then map_sum id Some (volume_weighted_price ts) else Inr None)"

text \<open>The local function \<open>include\<close> of \<open>all_share_index\<close>; \<open>None\<close> and \<open>0\<close> are falsy.\<close>

definition include_trade :: "real \<Rightarrow> int option \<Rightarrow> trade \<Rightarrow> bool" where
  "include_trade now duration t =
     (case duration of
        None \<Rightarrow> True
      | Some d \<Rightarrow> if d \<noteq> 0 then timestamp t \<ge> now - real_of_int d else True)"

text \<open>The sort and grouping key \<open>attrgetter('stock.symbol')\<close>.\<close>

definition stock_symbol :: "trade \<Rightarrow> string" where
  "stock_symbol t = symbol (stock t)"

text \<open>
  \<open>itertools.groupby\<close>: the maximal runs of consecutive elements with equal keys, each
  with its key.
\<close>

function groupby :: "('a \<Rightarrow> 'k) \<Rightarrow> 'a list \<Rightarrow> ('k \<times> 'a list) list" where
  "groupby key [] = []"
| "groupby key (x # xs) =
     (key x, x # takeWhile (\<lambda>y. key y = key x) xs)
       # groupby key (dropWhile (\<lambda>y. key y = key x) xs)"
  by pat_completeness auto
termination
  by (relation "measure (\<lambda>(key, xs). length xs)")
     (auto simp: less_Suc_eq_le length_dropWhile_le)

text \<open>
  The comprehension \<open>[Trade.volume_weighted_price(list(trades)) for symbol, trades in groups]\<close>:
  the first group that raises ends it.
\<close>

fun group_prices :: "('k \<times> trade list) list \<Rightarrow> error + real list" where
  "group_prices [] = Inr []"
| "group_prices ((k, g) # gs) =
     (case volume_weighted_price g of
        Inl e \<Rightarrow> Inl e
      | Inr p \<Rightarrow> (case group_prices gs of Inl e \<Rightarrow> Inl e | Inr ps \<Rightarrow> Inr (p # ps)))"

text \<open>\<open>reduce(mul, prices)\<close>: without an initial value the empty list raises.\<close>

fun reduce_mul :: "real list \<Rightarrow> error + real" where
  "reduce_mul [] = Inl TypeError"
| "reduce_mul (p # ps) = Inr (foldl (*) p ps)"

text \<open>
  \<open>x ** y\<close> on floats. A negative base with an exponent that is not a whole number
  gives a complex number, the principal value: modulus \<open>|x| ** y\<close>, argument \<open>pi * y\<close>.
\<close>

datatype number = PyFloat real | PyComplex complex

definition float_pow :: "real \<Rightarrow> real \<Rightarrow> error + number" where
  "float_pow x y =
     (if y = 0 then Inr (PyFloat 1)
      else if x = 0 then (if y < 0 then Inl ZeroDivisionError else Inr (PyFloat 0))
      else if x < 0 \<and> y \<noteq> real_of_int \<lfloor>y\<rfloor>
        then Inr (PyComplex (rcis ((- x) powr y) (pi * y)))
      else if x < 0 then Inr (PyFloat (x powi \<lfloor>y\<rfloor>))
      else Inr (PyFloat (x powr y)))"

definition all_share_index :: "real \<Rightarrow> exchange \<Rightarrow> int option \<Rightarrow> error + number option" where
  "all_share_index now ex duration =
     (let ts = sort_key stock_symbol
                 [t \<leftarrow> trades ex. include_trade now duration t]
      in if ts \<noteq> [] then
           (let groups = groupby stock_symbol ts
            in case group_prices groups of
                 Inl e \<Rightarrow> Inl e
               | Inr prices \<Rightarrow>
                   (case reduce_mul prices of
                      Inl e \<Rightarrow> Inl e
                    | Inr product \<Rightarrow>
                        (case truediv 1 (real (length prices)) of
                           Inl e \<Rightarrow> Inl e
                         | Inr y \<Rightarrow> map_sum id Some (float_pow product y))))
         else Inr None)"

text \<open>
  The methods of an Exchange object as transitions: a call takes the object to its next
  state and returns a value. \<open>record_trade\<close> returns nothing; the queries assign to no
  field and call no mutating method of the ledger (\<open>sorted\<close> builds a new list).
\<close>

datatype call =
    Record_trade trade
  | Price_by_stock string int
  | All_share_index "int option"

datatype returned =
    Nothing
  | Price "error + real option"
  | Index "error + number option"

fun invoke :: "real \<Rightarrow> exchange \<Rightarrow> call \<Rightarrow> exchange \<times> returned" where
  "invoke now ex (Record_trade t) = (record_trade ex t, Nothing)"
| "invoke now ex (Price_by_stock name duration) =
     (ex, Price (price_by_stock now ex name duration))"
| "invoke now ex (All_share_index duration) =
     (ex, Index (all_share_index now ex duration))"

fun invoke_all :: "exchange \<Rightarrow> (real \<times> call) list \<Rightarrow> exchange" where
  "invoke_all ex [] = ex"
| "invoke_all ex ((now, c) # cs) = invoke_all (fst (invoke now ex c)) cs"

subsection \<open>The exchange as a store of objects\<close>

text \<open>
  The objects of a running program. A Trade object is reached through a reference, its
  fields can be assigned to, and the ledger of the exchange (\<open>self.trades\<close>) is a
  sequence of references. Every reference denotes an object. A method is a program on
  this store: it returns a value and leaves a store.
\<close>

type_synonym ref = nat

record store =
  objects :: "ref \<Rightarrow> trade"
  deque :: "ref list"

text \<open>An expression that reads the store and writes nothing.\<close>

definition read :: "(store \<Rightarrow> 'a) \<Rightarrow> (store, 'a) state" where
  "read f = do { s \<leftarrow> State_Monad.get; State_Monad.return (f s) }"

text \<open>\<open>self.trades\<close>, and the object behind a reference.\<close>

definition self_trades :: "(store, ref list) state" where
  "self_trades = read deque"

definition load :: "ref \<Rightarrow> (store, trade) state" where
  "load r = read (\<lambda>s. objects s r)"

text \<open>
  The statements that write: \<open>self.trades.append(trade)\<close> of \<open>record_trade\<close>, and the
  assignment \<open>trade.timestamp = ...\<close> by which \<open>test_sssm.py\<close> moves a trade out of the
  window.
\<close>

definition record_trade_m :: "ref \<Rightarrow> (store, unit) state" where
  "record_trade_m r = State_Monad.update (\<lambda>s. s\<lparr>deque := deque s @ [r]\<rparr>)"

definition set_timestamp :: "ref \<Rightarrow> real \<Rightarrow> (store, unit) state" where
  "set_timestamp r ts =
     State_Monad.update (\<lambda>s. s\<lparr>objects := (objects s)(r := (objects s r)\<lparr>timestamp := ts\<rparr>)\<rparr>)"

text \<open>
  A comprehension \<open>[x for x in xs if p(x)]\<close> whose condition reads objects: the elements
  are visited in order and the kept ones form a new list.
\<close>

fun filter_m :: "('a \<Rightarrow> ('s, bool) state) \<Rightarrow> 'a list \<Rightarrow> ('s, 'a list) state" where
  "filter_m p [] = State_Monad.return []"
| "filter_m p (x # xs) = do {
     b \<leftarrow> p x;
     ys \<leftarrow> filter_m p xs;
     State_Monad.return (if b then x # ys else ys)
   }"

text \<open>\<open>Trade.volume_weighted_price\<close> on a list of references: it reads each trade.\<close>

definition volume_weighted_price_m :: "ref list \<Rightarrow> (store, error + real) state" where
  "volume_weighted_price_m refs = do {
     ts \<leftarrow> State_Monad.traverse_list load refs;
     State_Monad.return (volume_weighted_price ts)
   }"

definition price_by_stock_m :: "real \<Rightarrow> string \<Rightarrow> int \<Rightarrow> (store, error + real option) state" where
  "price_by_stock_m now name duration = do {
     refs \<leftarrow> self_trades;
     matching \<leftarrow> filter_m (\<lambda>r. do {
         t \<leftarrow> load r;
         State_Monad.return (symbol (stock t) = upper name \<and>
                             timestamp t \<ge> now - real_of_int duration)
       }) refs;
     if matching \<noteq> [] then do {
         p \<leftarrow> volume_weighted_price_m matching;
         State_Monad.return (map_sum id Some p)
       }
     else State_Monad.return (Inr None)
   }"

text \<open>
  \<open>sorted(..., key=attrgetter('stock.symbol'))\<close> and \<open>groupby\<close> on references: both read
  the key of each object and build a new list; neither reorders the list they are given.
\<close>

definition sorted_m :: "ref list \<Rightarrow> (store, ref list) state" where
  "sorted_m refs = read (\<lambda>s. sort_key (\<lambda>r. stock_symbol (objects s r)) refs)"

definition groupby_m :: "ref list \<Rightarrow> (store, (string \<times> ref list) list) state" where
  "groupby_m refs = read (\<lambda>s. groupby (\<lambda>r. stock_symbol (objects s r)) refs)"

fun group_prices_m :: "('k \<times> ref list) list \<Rightarrow> (store, error + real list) state" where
  "group_prices_m [] = State_Monad.return (Inr [])"
| "group_prices_m ((k, g) # gs) = do {
     p \<leftarrow> volume_weighted_price_m g;
     case p of
       Inl e \<Rightarrow> State_Monad.return (Inl e)
     | Inr p \<Rightarrow> do {
         ps \<leftarrow> group_prices_m gs;
         State_Monad.return (case ps of Inl e \<Rightarrow> Inl e | Inr ps \<Rightarrow> Inr (p # ps))
       }
   }"

definition all_share_index_m :: "real \<Rightarrow> int option \<Rightarrow> (store, error + number option) state" where
  "all_share_index_m now duration = do {
     refs \<leftarrow> self_trades;
     included \<leftarrow> filter_m (\<lambda>r. do {
         t \<leftarrow> load r;
         State_Monad.return (include_trade now duration t)
       }) refs;
     ts \<leftarrow> sorted_m included;
     if ts \<noteq> [] then do {
         groups \<leftarrow> groupby_m ts;
         prices \<leftarrow> group_prices_m groups;
         State_Monad.return
           (case prices of
              Inl e \<Rightarrow> Inl e
            | Inr prices \<Rightarrow>
                (case reduce_mul prices of
                   Inl e \<Rightarrow> Inl e
                 | Inr product \<Rightarrow>
                     (case truediv 1 (real (length prices)) of
                        Inl e \<Rightarrow> Inl e
                      | Inr y \<Rightarrow> map_sum id Some (float_pow product y))))
       }
     else State_Monad.return (Inr None)
   }"

text \<open>The exchange a store holds: the trades behind the references of the ledger.\<close>

definition ledger_of :: "store \<Rightarrow> exchange" where
  "ledger_of s = \<lparr>trades = map (objects s) (deque s)\<rparr>"

subsection \<open>The ledger of the acceptance test\<close>

text \<open>
  The stocks and the six trades of \<open>test_integration.py\<close>. The test records them within a
  moment of each other; here that moment is the instant \<open>0\<close>.
\<close>

definition TEA :: stock where
  "TEA = Stock_init CommonStock ''TEA'' 0 100 None"

definition POP :: stock where
  "POP = Stock_init CommonStock ''POP'' 8 100 None"

definition GIN :: stock where
  "GIN = Stock_init PreferredStock ''GIN'' 8 100 (Some (2 / 100))"

definition acceptance_trades :: "trade list" where
  "acceptance_trades =
     [Trade_init TEA 42 buy 32 0,
      Trade_init POP 420 buy 8 0,
      Trade_init POP 420 buy 16 0,
      Trade_init GIN 1000 buy 512 0,
      Trade_init GIN 1000 buy 256 0,
      Trade_init GIN 2000 buy 128 0]"

subsection \<open>The specification of the index\<close>




section \<open>Dividend yield and P/E ratio\<close>

text \<open>
  C6. The dividend yield of a CommonStock with last dividend \<open>d\<close> at a positive price
  \<open>p\<close> is \<open>d / p\<close>.
\<close>

theorem common_dividend_yield:
  assumes "kind s = CommonStock" and "0 < p"
  shows "dividend_yield s p = Inr (real_of_int (last_dividend s) / p)"
  using assms by (simp add: truediv_def)

theorem common_dividend_yield_witness:
  "dividend_yield (Stock_init CommonStock ''POP'' 8 100 None) 100 = Inr (8 / 100)"
  using common_dividend_yield [of "Stock_init CommonStock ''POP'' 8 100 None" 100]
  by (simp add: Stock_init_def)

text \<open>
  C7. The dividend yield of a PreferredStock at a positive price \<open>p\<close> is
  \<open>(fixed_dividend * par_value) / p\<close> when the fixed dividend is set, and \<open>0\<close> when it is
  \<open>None\<close>.
\<close>

theorem preferred_dividend_yield:
  assumes "kind s = PreferredStock" and "0 < p"
  shows "dividend_yield s p =
           (case fixed_dividend s of
              Some f \<Rightarrow> Inr ((f * real_of_int (par_value s)) / p)
            | None \<Rightarrow> Inr 0)"
  using assms by (simp add: truediv_def split: option.split)

theorem preferred_dividend_yield_witness:
  "dividend_yield (Stock_init PreferredStock ''GIN'' 8 100 (Some (2 / 100))) 100 = Inr (2 / 100)
   \<and> dividend_yield (Stock_init PreferredStock ''GIN'' 8 100 None) 100 = Inr 0"
  using preferred_dividend_yield [of "Stock_init PreferredStock ''GIN'' 8 100 (Some (2 / 100))" 100]
        preferred_dividend_yield [of "Stock_init PreferredStock ''GIN'' 8 100 None" 100]
  by (simp add: Stock_init_def)

text \<open>
  C5, as the claim states it: \<open>pe_ratio\<close> fails with a division by zero exactly when the
  yield is zero. It fails at the price \<open>0\<close>, where a CommonStock with last dividend \<open>8\<close> has
  no yield at all: the division inside \<open>dividend_yield\<close> raises, and \<open>pe_ratio\<close> passes the
  error on.
\<close>

theorem pe_ratio_zero_price_counterexample:
  "pe_ratio (Stock_init CommonStock ''POP'' 8 100 None) 0 = Inl ZeroDivisionError
   \<and> dividend_yield (Stock_init CommonStock ''POP'' 8 100 None) 0 \<noteq> Inr 0"
  by (simp add: pe_ratio_def Stock_init_def truediv_def)

text \<open>
  C5, amended. Where the yield is a nonzero number \<open>y\<close>, \<open>pe_ratio\<close> is \<open>1 / y\<close>.
  \<open>pe_ratio\<close> fails with a division by zero exactly when the yield is zero or the
  computation of the yield itself fails with a division by zero (the price is \<open>0\<close>); at a
  nonzero price, exactly when the yield is zero. A CommonStock with last dividend \<open>0\<close>
  fails so at every price.
\<close>

theorem pe_ratio_inverse_yield:
  "(dividend_yield s p = Inr y \<and> y \<noteq> 0 \<longrightarrow> pe_ratio s p = Inr (1 / y))
   \<and> (pe_ratio s p = Inl ZeroDivisionError \<longleftrightarrow>
        dividend_yield s p = Inr 0 \<or> dividend_yield s p = Inl ZeroDivisionError)
   \<and> (p \<noteq> 0 \<longrightarrow>
        (pe_ratio s p = Inl ZeroDivisionError \<longleftrightarrow> dividend_yield s p = Inr 0))
   \<and> (kind s = CommonStock \<and> last_dividend s = 0 \<longrightarrow>
        pe_ratio s p = Inl ZeroDivisionError)"
  by (auto simp: pe_ratio_def truediv_def split: stock_class.splits option.splits sum.splits)

theorem pe_ratio_inverse_yield_witness:
  "pe_ratio (Stock_init CommonStock ''POP'' 8 100 None) 100 = Inr (25 / 2)
   \<and> pe_ratio (Stock_init CommonStock ''TEA'' 0 100 None) 100 = Inl ZeroDivisionError
   \<and> dividend_yield (Stock_init CommonStock ''TEA'' 0 100 None) 100 = Inr 0"
  using pe_ratio_inverse_yield [of "Stock_init CommonStock ''POP'' 8 100 None" 100 "8 / 100"]
        pe_ratio_inverse_yield [of "Stock_init CommonStock ''TEA'' 0 100 None" 100 0]
  by (simp add: Stock_init_def truediv_def)

section \<open>Volume weighted price\<close>

text \<open>
  C3. For trades whose quantities do not sum to zero, \<open>volume_weighted_price\<close> is the sum
  of \<open>price * quantity\<close> over the sum of the quantities. For the empty sequence and for
  every sequence whose quantities sum to zero it fails with a division by zero: there is
  no check for emptiness.
\<close>

theorem volume_weighted_price_quotient:
  "(sum_list (map quantity ts) \<noteq> 0 \<longrightarrow>
      volume_weighted_price ts =
        Inr ((\<Sum>t\<leftarrow>ts. price t * real_of_int (quantity t)) / real_of_int (\<Sum>t\<leftarrow>ts. quantity t)))
   \<and> (sum_list (map quantity ts) = 0 \<longrightarrow> volume_weighted_price ts = Inl ZeroDivisionError)
   \<and> volume_weighted_price [] = Inl ZeroDivisionError"
  by (simp add: volume_weighted_price_def truediv_def)

theorem volume_weighted_price_quotient_witness:
  "volume_weighted_price
     [Trade_init (Stock_init CommonStock ''TEA'' 0 100 None) 16 buy 100 0,
      Trade_init (Stock_init CommonStock ''TEA'' 0 100 None) 8 buy 50 0] = Inr (250 / 3)
   \<and> volume_weighted_price
     [Trade_init (Stock_init CommonStock ''TEA'' 0 100 None) 16 buy 100 0,
      Trade_init (Stock_init CommonStock ''TEA'' 0 100 None) (- 16) sell 50 0]
       = Inl ZeroDivisionError"
  using volume_weighted_price_quotient
          [of "[Trade_init (Stock_init CommonStock ''TEA'' 0 100 None) 16 buy 100 0,
                Trade_init (Stock_init CommonStock ''TEA'' 0 100 None) 8 buy 50 0]"]
        volume_weighted_price_quotient
          [of "[Trade_init (Stock_init CommonStock ''TEA'' 0 100 None) 16 buy 100 0,
                Trade_init (Stock_init CommonStock ''TEA'' 0 100 None) (- 16) sell 50 0]"]
  by (simp add: Trade_init_def)

section \<open>The ledger\<close>

lemma trades_record_all: "trades (foldl record_trade ex ts) = trades ex @ ts"
  by (induction ts arbitrary: ex) (simp_all add: record_trade_def)

lemma invoke_extends: "\<exists>ys. trades (fst (invoke now ex c)) = trades ex @ ys"
  by (cases c) (simp_all add: record_trade_def)

lemma invoke_all_extends: "\<exists>ys. trades (invoke_all ex cs) = trades ex @ ys"
proof (induction cs arbitrary: ex)
  case Nil
  show ?case by simp
next
  case (Cons a cs)
  obtain now c where a: "a = (now, c)" by (cases a)
  obtain ys where 1: "trades (fst (invoke now ex c)) = trades ex @ ys"
    using invoke_extends by blast
  obtain zs where 2:
    "trades (invoke_all (fst (invoke now ex c)) cs) = trades (fst (invoke now ex c)) @ zs"
    using Cons.IH by blast
  show ?case using a 1 2 by simp
qed

text \<open>
  C8. A new Exchange has an empty ledger. Recording the trades \<open>ts\<close> one after the other
  leaves the ledger equal to \<open>ts\<close>: entry \<open>i\<close> is the \<open>i\<close>-th recorded trade. No sequence
  of calls, queries included, removes or moves an entry: the ledger never gets shorter
  and every entry stays at its index.
\<close>

theorem ledger_append_only:
  "trades Exchange_init = []
   \<and> trades (foldl record_trade Exchange_init ts) = ts
   \<and> (\<forall>i < length ts. trades (foldl record_trade Exchange_init ts) ! i = ts ! i)
   \<and> length (trades ex) \<le> length (trades (invoke_all ex cs))
   \<and> (\<forall>i < length (trades ex). trades (invoke_all ex cs) ! i = trades ex ! i)"
proof -
  have a: "trades (foldl record_trade Exchange_init ts) = ts"
    by (simp add: trades_record_all Exchange_init_def)
  obtain ys where b: "trades (invoke_all ex cs) = trades ex @ ys"
    using invoke_all_extends by blast
  show ?thesis using a b by (simp add: Exchange_init_def nth_append)
qed

theorem ledger_append_only_witness:
  "trades (foldl record_trade Exchange_init acceptance_trades) ! 3 = Trade_init GIN 1000 buy 512 0
   \<and> trades (invoke_all \<lparr>trades = acceptance_trades\<rparr>
        [(1, Price_by_stock ''TEA'' 300),
         (2, Record_trade (Trade_init TEA 1 sell 30 2)),
         (3, All_share_index (Some 300))]) ! 5 = Trade_init GIN 2000 buy 128 0"
  using ledger_append_only [of acceptance_trades "\<lparr>trades = acceptance_trades\<rparr>"
          "[(1, Price_by_stock ''TEA'' 300),
            (2, Record_trade (Trade_init TEA 1 sell 30 2)),
            (3, All_share_index (Some 300))]"]
  by (simp add: acceptance_trades_def)

section \<open>Symbols\<close>

text \<open>On the codes of the bytes: a lower-case letter goes 32 down, every other byte stays.\<close>

lemma char_upper_of_char:
  "of_char (char_upper c) =
     (if CHR ''a'' \<le> c \<and> c \<le> CHR ''z'' then of_char c - (32::nat) else of_char c)"
  by (cases c) (auto simp: less_eq_char_def)

lemma char_upper_idem: "char_upper (char_upper c) = char_upper c"
  by (cases c) (auto simp: less_eq_char_def)

lemma char_upper_not_lower: "\<not> (CHR ''a'' \<le> char_upper c \<and> char_upper c \<le> CHR ''z'')"
  by (cases c) (auto simp: less_eq_char_def)

lemma upper_idem: "upper (upper s) = upper s"
  by (simp add: upper_def char_upper_idem)

text \<open>
  C9. The symbol a Stock is constructed with is stored upper-cased: the field equals
  \<open>upper name\<close>, upper-casing it again changes nothing, and it holds no lower-case
  letter. No call on the exchange changes the stock of a recorded trade. (The methods of
  a Stock, \<open>dividend_yield\<close> and \<open>pe_ratio\<close>, assign to no field: they are functions of the
  stock that return a number.)
\<close>

theorem symbol_uppercase:
  "symbol (Stock_init cls name ld pv fd) = upper name
   \<and> upper (symbol (Stock_init cls name ld pv fd)) = symbol (Stock_init cls name ld pv fd)
   \<and> (\<forall>c \<in> set (symbol (Stock_init cls name ld pv fd)). \<not> (CHR ''a'' \<le> c \<and> c \<le> CHR ''z''))
   \<and> (\<forall>i < length (trades ex). stock (trades (invoke_all ex cs) ! i) = stock (trades ex ! i))"
proof -
  obtain ys where b: "trades (invoke_all ex cs) = trades ex @ ys"
    using invoke_all_extends by blast
  have c: "\<forall>c \<in> set (upper name). \<not> (CHR ''a'' \<le> c \<and> c \<le> CHR ''z'')"
    using char_upper_not_lower by (auto simp: upper_def)
  show ?thesis using b c by (simp add: Stock_init_def upper_idem nth_append)
qed

theorem symbol_uppercase_witness:
  "symbol (Stock_init CommonStock ''Tea'' 0 100 None) = ''TEA''
   \<and> stock (trades (invoke_all
         \<lparr>trades = [Trade_init (Stock_init CommonStock ''Tea'' 0 100 None) 42 buy 32 0]\<rparr>
         [(1, Price_by_stock ''tea'' 300),
          (2, Record_trade (Trade_init (Stock_init CommonStock ''pop'' 8 100 None) 420 buy 8 2)),
          (3, All_share_index None)]) ! 0)
       = Stock_init CommonStock ''Tea'' 0 100 None"
  using symbol_uppercase [of CommonStock "''Tea''" 0 100 None
          "\<lparr>trades = [Trade_init (Stock_init CommonStock ''Tea'' 0 100 None) 42 buy 32 0]\<rparr>"
          "[(1, Price_by_stock ''tea'' 300),
            (2, Record_trade (Trade_init (Stock_init CommonStock ''pop'' 8 100 None) 420 buy 8 2)),
            (3, All_share_index None)]"]
  by (simp add: upper_def Trade_init_def)

section \<open>Price by stock\<close>

text \<open>
  C1. \<open>price_by_stock\<close> returns \<open>None\<close> exactly when no recorded trade has both a stock
  whose symbol is the upper-cased query symbol and a timestamp of at least
  \<open>now - duration\<close>. Otherwise it returns \<open>volume_weighted_price\<close> of exactly the trades
  that have both (an error of \<open>volume_weighted_price\<close> is passed on). The query symbol is
  upper-cased before the comparison: two query symbols with the same upper-case form get
  the same answer, and a stock built by \<open>Stock.__init__\<close> matches when its name and the
  query agree up to case. \<open>None\<close> is returned in no other case, so it is never mistaken
  for a price, zero included.
\<close>

theorem price_by_stock_window:
  "(price_by_stock now ex name d = Inr None \<longleftrightarrow>
      \<not> (\<exists>t \<in> set (trades ex).
            symbol (stock t) = upper name \<and> now - real_of_int d \<le> timestamp t))
   \<and> ((\<exists>t \<in> set (trades ex).
            symbol (stock t) = upper name \<and> now - real_of_int d \<le> timestamp t) \<longrightarrow>
        price_by_stock now ex name d =
          map_sum id Some
            (volume_weighted_price
               [t \<leftarrow> trades ex.
                  symbol (stock t) = upper name \<and> now - real_of_int d \<le> timestamp t]))
   \<and> (upper name' = upper name \<longrightarrow>
        price_by_stock now ex name' d = price_by_stock now ex name d)
   \<and> (symbol (Stock_init cls n ld pv fd) = upper name \<longleftrightarrow> upper n = upper name)"
  by (cases "volume_weighted_price
               [t \<leftarrow> trades ex.
                  symbol (stock t) = upper name \<and> now - real_of_int d \<le> timestamp t]")
     (auto simp: price_by_stock_def Let_def filter_empty_conv Stock_init_def)

theorem price_by_stock_window_witness:
  "price_by_stock 1 \<lparr>trades = acceptance_trades\<rparr> ''pop'' 300 = Inr (Some 12)
   \<and> price_by_stock 1 \<lparr>trades = acceptance_trades\<rparr> ''POP'' 300 = Inr (Some 12)
   \<and> price_by_stock 301 \<lparr>trades = acceptance_trades\<rparr> ''pop'' 300 = Inr None
   \<and> price_by_stock 1 \<lparr>trades = [Trade_init TEA 42 buy 0 0]\<rparr> ''tea'' 300 = Inr (Some 0)"
  using price_by_stock_window [of 1 "\<lparr>trades = acceptance_trades\<rparr>" "''pop''" 300 "''POP''"]
        price_by_stock_window [of 301 "\<lparr>trades = acceptance_trades\<rparr>" "''pop''" 300]
        price_by_stock_window [of 1 "\<lparr>trades = [Trade_init TEA 42 buy 0 0]\<rparr>" "''tea''" 300]
  by (simp add: acceptance_trades_def Trade_init_def Stock_init_def TEA_def POP_def GIN_def
        upper_def volume_weighted_price_def truediv_def)

section \<open>Grouping by symbol\<close>














section \<open>The all share index\<close>











text \<open>
  Stored symbols that differ only in letter case come from an assignment to the field or
  from a stock object of another class, as the mocks of \<open>test_sssm.py\<close>: the constructor
  stores the same symbol for names that agree up to case.
\<close>

lemma constructed_symbols_agree:
  "upper n1 = upper n2 \<Longrightarrow>
     symbol (Stock_init c1 n1 l1 p1 f1) = symbol (Stock_init c2 n2 l2 p2 f2)"
  by (simp add: Stock_init_def)

section \<open>The queries on the store\<close>

text \<open>
  Each reading step returns the store it was given, and the queries on the store compute
  what the functions on the exchange compute.
\<close>

lemma run_read: "run_state (read f) s = (f s, s)"
  by (simp add: read_def)

lemma run_load_all: "run_state (State_Monad.traverse_list load refs) s = (map (objects s) refs, s)"
  by (induction refs) (simp_all add: load_def run_read)

lemma run_filter_m:
  "run_state (filter_m (\<lambda>r. do { t \<leftarrow> load r; State_Monad.return (P t) }) refs) s
     = ([r \<leftarrow> refs. P (objects s r)], s)"
  by (induction refs) (simp_all add: load_def run_read)

lemma run_volume_weighted_price_m:
  "run_state (volume_weighted_price_m refs) s = (volume_weighted_price (map (objects s) refs), s)"
  by (simp add: volume_weighted_price_m_def run_load_all)

lemma run_group_prices_m:
  "run_state (group_prices_m gs) s = (group_prices (map (\<lambda>(k, g). (k, map (objects s) g)) gs), s)"
  by (induction gs) (auto simp: run_volume_weighted_price_m split: sum.splits)

lemma run_price_by_stock_m:
  "run_state (price_by_stock_m now name d) s = (price_by_stock now (ledger_of s) name d, s)"
  by (simp add: price_by_stock_m_def price_by_stock_def ledger_of_def self_trades_def run_read
        run_filter_m run_volume_weighted_price_m filter_map comp_def Let_def)


lemma insort_key_map:
  "map f (insort_key (\<lambda>x. k (f x)) x xs) = insort_key k (f x) (map f xs)"
  by (induction xs) simp_all

lemma sort_key_map:
  "map f (sort_key (\<lambda>x. k (f x)) xs) = sort_key k (map f xs)"
  by (induction xs) (simp_all add: insort_key_map)

lemma groupby_map:
  "groupby k (map f xs) = map (\<lambda>(key, g). (key, map f g)) (groupby (\<lambda>x. k (f x)) xs)"
proof (induction "\<lambda>x. k (f x)" xs rule: groupby.induct)
  case 1
  show ?case by simp
next
  case (2 x xs)
  have "groupby k (map f (dropWhile (\<lambda>y. k (f y) = k (f x)) xs))
          = map (\<lambda>(key, g). (key, map f g)) (groupby (\<lambda>x. k (f x)) (dropWhile (\<lambda>y. k (f y) = k (f x)) xs))"
    by (rule "2.hyps")
  then show ?case
    by (simp add: takeWhile_map dropWhile_map comp_def)
qed

lemma run_all_share_index_m:
  "run_state (all_share_index_m now duration) s = (all_share_index now (ledger_of s) duration, s)"
proof -
  let ?inc = "[r \<leftarrow> deque s. include_trade now duration (objects s r)]"
  let ?ts = "sort_key (\<lambda>r. stock_symbol (objects s r)) ?inc"
  have inc: "[t \<leftarrow> map (objects s) (deque s). include_trade now duration t] = map (objects s) ?inc"
    by (simp add: filter_map comp_def)
  have ts: "sort_key stock_symbol (map (objects s) ?inc) = map (objects s) ?ts"
    by (simp add: sort_key_map)
  have gr: "groupby stock_symbol (map (objects s) ?ts)
              = map (\<lambda>(k, g). (k, map (objects s) g)) (groupby (\<lambda>r. stock_symbol (objects s r)) ?ts)"
    by (rule groupby_map)
  show ?thesis
    by (simp add: all_share_index_m_def all_share_index_def ledger_of_def self_trades_def
          sorted_m_def groupby_m_def run_read run_filter_m run_group_prices_m inc ts gr Let_def
          del: sort_key_simps)
qed

text \<open>
  C10. \<open>price_by_stock\<close> and \<open>all_share_index\<close> are read-only: the store after the call is
  the store before it. The ledger holds the same references in the same order, and every
  Trade object has the fields it had, the timestamp included.
\<close>

theorem queries_read_only:
  "snd (run_state (price_by_stock_m now name d) s) = s
   \<and> snd (run_state (all_share_index_m now duration) s) = s
   \<and> deque (snd (run_state (price_by_stock_m now name d) s)) = deque s
   \<and> objects (snd (run_state (price_by_stock_m now name d) s)) = objects s
   \<and> deque (snd (run_state (all_share_index_m now duration) s)) = deque s
   \<and> objects (snd (run_state (all_share_index_m now duration) s)) = objects s"
  by (simp add: run_price_by_stock_m run_all_share_index_m)

text \<open>The writing statements do change the store.\<close>

lemma record_trade_m_appends:
  "run_state (record_trade_m r) s = ((), s\<lparr>deque := deque s @ [r]\<rparr>)"
  by (simp add: record_trade_m_def State_Monad.update_def)

lemma record_trade_m_ledger:
  "ledger_of (snd (run_state (record_trade_m r) s)) = record_trade (ledger_of s) (objects s r)"
  by (simp add: record_trade_m_appends ledger_of_def record_trade_def)

lemma set_timestamp_writes:
  "timestamp (objects (snd (run_state (set_timestamp r ts) s)) r) = ts"
  by (simp add: set_timestamp_def State_Monad.update_def)

lemma record_trade_m_changes: "snd (run_state (record_trade_m r) s) \<noteq> s"
proof
  assume "snd (run_state (record_trade_m r) s) = s"
  then have "deque (snd (run_state (record_trade_m r) s)) = deque s" by simp
  then show False by (simp add: record_trade_m_appends)
qed

lemma set_timestamp_changes:
  assumes "ts \<noteq> timestamp (objects s r)"
  shows "snd (run_state (set_timestamp r ts) s) \<noteq> s"
proof
  assume "snd (run_state (set_timestamp r ts) s) = s"
  then have "timestamp (objects (snd (run_state (set_timestamp r ts) s)) r)
               = timestamp (objects s r)" by simp
  then show False using assms by (simp only: set_timestamp_writes)
qed

end
